theory Spec2Isabelle
  imports Main "HOL-Library.Word"
begin

section \<open>Data model of models/result.go\<close>

text \<open>
  Go's \<^verbatim>\<open>int64\<close> is a 64-bit word. A \<^verbatim>\<open>float64\<close> is carried as its 64-bit IEEE-754
  pattern: the code only copies coordinates, it never computes with them. A
  \<^verbatim>\<open>time.Time\<close> is an instant on an integer time line; \<open>0\<close> is the zero value.
\<close>

type_synonym int64 = "64 word"
type_synonym float64 = "64 word"
type_synonym time = int

text \<open>
  A non-nil Go \<^verbatim>\<open>error\<close>. \<open>ErrRecordNotFound\<close> is \<^verbatim>\<open>gorm.ErrRecordNotFound\<close>, the only
  error value the code compares against; every other error is \<open>Err\<close> with its message.
  A nil error is \<open>None :: error option\<close>.
\<close>

datatype error = ErrRecordNotFound | Err string

fun Error :: "error \<Rightarrow> string" where
  "Error ErrRecordNotFound = ''record not found''"
| "Error (Err msg) = msg"

text \<open>
  How a call ends: it returns its \<^verbatim>\<open>error\<close> result (\<open>Return None\<close> is \<^verbatim>\<open>nil\<close>), it
  panics, or it ends the process (\<^verbatim>\<open>log.Fatal\<close>).
\<close>

datatype outcome = Return "error option" | Panic string | Exit error

record Result =
  Result_Id :: int64
  CampaignId :: int64
  UserId :: int64
  RId :: string
  Email :: string
  FirstName :: string
  LastName :: string
  Position :: string
  Status :: string
  IP :: string
  Latitude :: float64
  Longitude :: float64
  SendDate :: time
  Reported :: bool
  ModifiedDate :: time

record mmGeoPoint =
  GeoPoint_Latitude :: float64
  GeoPoint_Longitude :: float64

record mmCity =
  GeoPoint :: mmGeoPoint

text \<open>
  Modelled from the spec: the \<^verbatim>\<open>Event\<close> struct is declared outside result.go. The code
  uses its fields \<^verbatim>\<open>Email\<close>, \<^verbatim>\<open>Message\<close>, \<^verbatim>\<open>Details\<close> and \<^verbatim>\<open>Time\<close>; the spec lists the same
  attributes (recipient email, event kind, JSON-encoded detail payload, timestamp).
\<close>

record Event =
  Event_Email :: string
  Message :: string
  Details :: string
  Time :: time

text \<open>
  Modelled from the spec: the \<^verbatim>\<open>Campaign\<close> struct is declared outside result.go; the code
  only looks a campaign up and appends events to its log, so the model keeps its identity.
\<close>

record Campaign =
  Campaign_Id :: int64

text \<open>
  The \<^verbatim>\<open>details interface{}\<close> argument of \<^verbatim>\<open>createEvent\<close>. The code passes \<^verbatim>\<open>nil\<close>
  (\<open>None\<close>), an \<^verbatim>\<open>EventError{Error: msg}\<close>, or a caller-supplied \<^verbatim>\<open>EventDetails\<close> value;
  the type \<^verbatim>\<open>EventDetails\<close> is declared outside result.go and is the parameter \<open>'p\<close>.
\<close>

datatype 'p details = EventError string | EventDetails 'p

type_synonym net_IP = "8 word list"

subsection \<open>Status and event-kind constants\<close>

text \<open>
  Modelled from the spec: the constants are declared outside result.go. Their values are
  the spec's enumerated set \<^verbatim>\<open>queued\<close>, \<^verbatim>\<open>sent\<close>, \<^verbatim>\<open>sending-error\<close>, \<^verbatim>\<open>retry\<close>, \<^verbatim>\<open>opened\<close>,
  \<^verbatim>\<open>clicked\<close>, \<^verbatim>\<open>submitted-data\<close>, \<^verbatim>\<open>reported\<close>. The code has two constants for a failed
  send, the event kind \<^verbatim>\<open>EVENT_SENDING_ERROR\<close> and the status \<^verbatim>\<open>ERROR\<close>; the spec names
  both \<^verbatim>\<open>sending-error\<close>.
\<close>

definition STATUS_QUEUED :: string where "STATUS_QUEUED = ''queued''"
definition EVENT_SENT :: string where "EVENT_SENT = ''sent''"
definition EVENT_SENDING_ERROR :: string where "EVENT_SENDING_ERROR = ''sending-error''"
definition ERROR :: string where "ERROR = ''sending-error''"
definition STATUS_RETRY :: string where "STATUS_RETRY = ''retry''"
definition EVENT_OPENED :: string where "EVENT_OPENED = ''opened''"
definition EVENT_CLICKED :: string where "EVENT_CLICKED = ''clicked''"
definition EVENT_DATA_SUBMIT :: string where "EVENT_DATA_SUBMIT = ''submitted-data''"
definition EVENT_REPORTED :: string where "EVENT_REPORTED = ''reported''"

subsection \<open>Collaborators\<close>

text \<open>
  What the collaborators answer during one call. None of them is defined in result.go, so
  each is a parameter of the model:
  \<^item> \<open>GetCampaign\<close>: the campaign lookup by campaign and user id;
  \<^item> \<open>json_Marshal\<close>: \<^verbatim>\<open>json.Marshal\<close> on a detail payload;
  \<^item> \<open>time_Now\<close>: the instant the event log stamps on an event appended during the call;
  \<^item> \<open>AddEvent_Error\<close>: the failure, if any, of writing an event to the log;
  \<^item> \<open>Save_Error\<close>: the \<^verbatim>\<open>Error\<close> of \<^verbatim>\<open>db.Save(r)\<close>;
  \<^item> \<open>maxminddb_Open\<close>: opening the geo dataset gives an error or a reader, and a reader
    answers \<^verbatim>\<open>Lookup(ip, &city)\<close> with an error or the decoded city;
  \<^item> \<open>net_ParseIP\<close>: \<^verbatim>\<open>net.ParseIP\<close>, \<open>None\<close> being the nil address of an unparsable string;
  \<^item> \<open>rand_Int\<close>: \<open>rand_Int env d m\<close> is what the \<open>d\<close>-th call of
    \<^verbatim>\<open>rand.Int(rand.Reader, m)\<close> returns;
  \<^item> \<open>First_Error\<close>: the \<^verbatim>\<open>Error\<close> of the lookup of a row of table \<^verbatim>\<open>results\<close> by \<^verbatim>\<open>r_id\<close>
    (\<open>None\<close> when a row is found).
\<close>

record 'p env =
  GetCampaign :: "int64 \<Rightarrow> int64 \<Rightarrow> error + Campaign"
  json_Marshal :: "'p details \<Rightarrow> error + string"
  time_Now :: time
  AddEvent_Error :: "Event \<Rightarrow> error option"
  Save_Error :: "Result \<Rightarrow> error option"
  maxminddb_Open :: "error + (net_IP option \<Rightarrow> error + mmCity)"
  net_ParseIP :: "string \<Rightarrow> net_IP option"
  rand_Int :: "nat \<Rightarrow> nat \<Rightarrow> error + nat"
  First_Error :: "string \<Rightarrow> error option"

text \<open>
  The persistent state the calls write to: the campaigns' event log (campaign id and
  event, oldest first) and the rows of table \<^verbatim>\<open>results\<close> written by \<^verbatim>\<open>db.Save\<close>, oldest
  first.
\<close>

record store =
  event_log :: "(int64 \<times> Event) list"
  saved :: "Result list"

text \<open>
  Modelled from the spec: \<^verbatim>\<open>Campaign.AddEvent\<close> is defined outside result.go. It stamps
  the event with the recorded timestamp, appends it to the campaign's event log and
  reports success or failure; a failed append leaves the log as it was.
\<close>

definition AddEvent :: "'p env \<Rightarrow> Campaign \<Rightarrow> Event \<Rightarrow> store \<Rightarrow> error option \<times> Event \<times> store" where
  "AddEvent env c e s =
     (let e' = e\<lparr>Time := time_Now env\<rparr> in
      case AddEvent_Error env e' of
        None \<Rightarrow> (None, e', s\<lparr>event_log := event_log s @ [(Campaign_Id c, e')]\<rparr>)
      | Some err \<Rightarrow> (Some err, e', s))"

text \<open>
  Modelled from the spec: \<^verbatim>\<open>db.Save\<close> is the persistence engine's \<^verbatim>\<open>Save(record)\<close>; a
  successful save writes the row, a failed one writes nothing.
\<close>

definition db_Save :: "'p env \<Rightarrow> Result \<Rightarrow> store \<Rightarrow> error option \<times> store" where
  "db_Save env r s =
     (case Save_Error env r of
        None \<Rightarrow> (None, s\<lparr>saved := saved s @ [r]\<rparr>)
      | Some err \<Rightarrow> (Some err, s))"

section \<open>The transitions\<close>

text \<open>
  \<^verbatim>\<open>createEvent\<close>: the result of \<^verbatim>\<open>c.AddEvent(e)\<close> is dropped, as on line 59 of the
  source; the event comes back with the time \<^verbatim>\<open>AddEvent\<close> stamped on it.
\<close>

definition createEvent ::
  "'p env \<Rightarrow> Result \<Rightarrow> string \<Rightarrow> 'p details option \<Rightarrow> store \<Rightarrow> (error + Event) \<times> store" where
  "createEvent env r status details s =
     (case GetCampaign env (CampaignId r) (UserId r) of
        Inl err \<Rightarrow> (Inl err, s)
      | Inr c \<Rightarrow>
          (let e = \<lparr>Event_Email = Email r, Message = status, Details = [], Time = 0\<rparr> in
           case (case details of
                   None \<Rightarrow> Inr e
                 | Some d \<Rightarrow>
                     (case json_Marshal env d of
                        Inl err \<Rightarrow> Inl err
                      | Inr dj \<Rightarrow> Inr (e\<lparr>Details := dj\<rparr>))) of
             Inl err \<Rightarrow> (Inl err, s)
           | Inr e1 \<Rightarrow> (case AddEvent env c e1 s of (_, e2, s') \<Rightarrow> (Inr e2, s'))))"

text \<open>
  The receiver is a pointer: every function returns the record as the call leaves it in
  memory, also when it returns an error.
\<close>

definition HandleEmailSent :: "'p env \<Rightarrow> Result \<Rightarrow> store \<Rightarrow> outcome \<times> Result \<times> store" where
  "HandleEmailSent env r s =
     (case createEvent env r EVENT_SENT None s of
        (Inl err, s1) \<Rightarrow> (Return (Some err), r, s1)
      | (Inr event, s1) \<Rightarrow>
          (let r1 = r\<lparr>Status := EVENT_SENT, ModifiedDate := Time event\<rparr> in
           case db_Save env r1 s1 of (res, s2) \<Rightarrow> (Return res, r1, s2)))"

text \<open>
  \<^verbatim>\<open>HandleEmailError\<close> and \<^verbatim>\<open>HandleEmailBackoff\<close> evaluate \<^verbatim>\<open>err.Error()\<close> first, which
  panics on a nil \<^verbatim>\<open>err\<close>.
\<close>

definition HandleEmailError ::
  "'p env \<Rightarrow> Result \<Rightarrow> error option \<Rightarrow> store \<Rightarrow> outcome \<times> Result \<times> store" where
  "HandleEmailError env r err s =
     (case err of
        None \<Rightarrow> (Panic ''nil pointer dereference'', r, s)
      | Some e \<Rightarrow>
          (case createEvent env r EVENT_SENDING_ERROR (Some (EventError (Error e))) s of
             (Inl err', s1) \<Rightarrow> (Return (Some err'), r, s1)
           | (Inr event, s1) \<Rightarrow>
               (let r1 = r\<lparr>Status := ERROR, ModifiedDate := Time event\<rparr> in
                case db_Save env r1 s1 of (res, s2) \<Rightarrow> (Return res, r1, s2))))"

definition HandleEmailBackoff ::
  "'p env \<Rightarrow> Result \<Rightarrow> error option \<Rightarrow> time \<Rightarrow> store \<Rightarrow> outcome \<times> Result \<times> store" where
  "HandleEmailBackoff env r err sendDate s =
     (case err of
        None \<Rightarrow> (Panic ''nil pointer dereference'', r, s)
      | Some e \<Rightarrow>
          (case createEvent env r EVENT_SENDING_ERROR (Some (EventError (Error e))) s of
             (Inl err', s1) \<Rightarrow> (Return (Some err'), r, s1)
           | (Inr event, s1) \<Rightarrow>
               (let r1 = r\<lparr>Status := STATUS_RETRY, SendDate := sendDate,
                             ModifiedDate := Time event\<rparr> in
                case db_Save env r1 s1 of (res, s2) \<Rightarrow> (Return res, r1, s2))))"

definition HandleEmailOpened :: "'p env \<Rightarrow> Result \<Rightarrow> 'p \<Rightarrow> store \<Rightarrow> outcome \<times> Result \<times> store" where
  "HandleEmailOpened env r details s =
     (case createEvent env r EVENT_OPENED (Some (EventDetails details)) s of
        (Inl err, s1) \<Rightarrow> (Return (Some err), r, s1)
      | (Inr event, s1) \<Rightarrow>
          if Status r = EVENT_CLICKED \<or> Status r = EVENT_DATA_SUBMIT then (Return None, r, s1)
          else
            (let r1 = r\<lparr>Status := EVENT_OPENED, ModifiedDate := Time event\<rparr> in
             case db_Save env r1 s1 of (res, s2) \<Rightarrow> (Return res, r1, s2)))"

definition HandleClickedLink :: "'p env \<Rightarrow> Result \<Rightarrow> 'p \<Rightarrow> store \<Rightarrow> outcome \<times> Result \<times> store" where
  "HandleClickedLink env r details s =
     (case createEvent env r EVENT_CLICKED (Some (EventDetails details)) s of
        (Inl err, s1) \<Rightarrow> (Return (Some err), r, s1)
      | (Inr event, s1) \<Rightarrow>
          if Status r = EVENT_DATA_SUBMIT then (Return None, r, s1)
          else
            (let r1 = r\<lparr>Status := EVENT_CLICKED, ModifiedDate := Time event\<rparr> in
             case db_Save env r1 s1 of (res, s2) \<Rightarrow> (Return res, r1, s2)))"

definition HandleFormSubmit :: "'p env \<Rightarrow> Result \<Rightarrow> 'p \<Rightarrow> store \<Rightarrow> outcome \<times> Result \<times> store" where
  "HandleFormSubmit env r details s =
     (case createEvent env r EVENT_DATA_SUBMIT (Some (EventDetails details)) s of
        (Inl err, s1) \<Rightarrow> (Return (Some err), r, s1)
      | (Inr event, s1) \<Rightarrow>
          (let r1 = r\<lparr>Status := EVENT_DATA_SUBMIT, ModifiedDate := Time event\<rparr> in
           case db_Save env r1 s1 of (res, s2) \<Rightarrow> (Return res, r1, s2)))"

definition HandleEmailReport :: "'p env \<Rightarrow> Result \<Rightarrow> 'p \<Rightarrow> store \<Rightarrow> outcome \<times> Result \<times> store" where
  "HandleEmailReport env r details s =
     (case createEvent env r EVENT_REPORTED (Some (EventDetails details)) s of
        (Inl err, s1) \<Rightarrow> (Return (Some err), r, s1)
      | (Inr event, s1) \<Rightarrow>
          (let r1 = r\<lparr>Reported := True, ModifiedDate := Time event\<rparr> in
           case db_Save env r1 s1 of (res, s2) \<Rightarrow> (Return res, r1, s2)))"

section \<open>Geo enrichment\<close>

text \<open>
  \<^verbatim>\<open>UpdateGeo\<close>: a dataset that cannot be opened ends the process (\<^verbatim>\<open>log.Fatal\<close>). The
  result of \<^verbatim>\<open>net.ParseIP\<close> is handed to \<^verbatim>\<open>Lookup\<close> unchecked, so an unparsable string
  reaches the reader as the nil address.
\<close>

definition UpdateGeo :: "'p env \<Rightarrow> Result \<Rightarrow> string \<Rightarrow> store \<Rightarrow> outcome \<times> Result \<times> store" where
  "UpdateGeo env r addr s =
     (case maxminddb_Open env of
        Inl err \<Rightarrow> (Exit err, r, s)
      | Inr mmdb \<Rightarrow>
          (let ip = net_ParseIP env addr in
           case mmdb ip of
             Inl err \<Rightarrow> (Return (Some err), r, s)
           | Inr city \<Rightarrow>
               (let r1 = r\<lparr>IP := addr,
                             Latitude := GeoPoint_Latitude (GeoPoint city),
                             Longitude := GeoPoint_Longitude (GeoPoint city)\<rparr> in
                case db_Save env r1 s of (res, s1) \<Rightarrow> (Return res, r1, s1))))"

section \<open>Identifier generation\<close>

definition alphaNum :: string where
  "alphaNum = ''abcdefghijklmnopqrstuvwxyzABCDEFGHIJKLMNOPQRSTUVWXYZ0123456789''"

text \<open>
  The inner loop \<^verbatim>\<open>for i := range k\<close>: \<open>d\<close> counts the draws taken from the random source
  so far. An index outside \<^verbatim>\<open>alphaNum\<close> panics.
\<close>

fun fill_key :: "'p env \<Rightarrow> nat \<Rightarrow> nat list \<Rightarrow> string \<Rightarrow> outcome + string" where
  "fill_key env d [] k = Inr k"
| "fill_key env d (i # rest) k =
     (case rand_Int env d (length alphaNum) of
        Inl err \<Rightarrow> Inl (Return (Some err))
      | Inr idx \<Rightarrow>
          if idx < length alphaNum then fill_key env (Suc d) rest (k[i := alphaNum ! idx])
          else Inl (Panic ''index out of range''))"

text \<open>
  The outer \<^verbatim>\<open>for\<close> loop has no bound in the source. The first argument is the number of
  attempts the model follows; \<open>None\<close> says the loop is still running after that many.
\<close>

fun GenerateId_loop :: "nat \<Rightarrow> 'p env \<Rightarrow> nat \<Rightarrow> string \<Rightarrow> Result \<Rightarrow> (outcome \<times> Result) option" where
  "GenerateId_loop 0 env d k r = None"
| "GenerateId_loop (Suc n) env d k r =
     (case fill_key env d [0..<length k] k of
        Inl out \<Rightarrow> Some (out, r)
      | Inr k' \<Rightarrow>
          (let r' = r\<lparr>RId := k'\<rparr> in
           if First_Error env (RId r') = Some ErrRecordNotFound then Some (Return None, r')
           else GenerateId_loop n env (d + length k) k' r'))"

definition GenerateId :: "nat \<Rightarrow> 'p env \<Rightarrow> Result \<Rightarrow> (outcome \<times> Result) option" where
  "GenerateId n env r = GenerateId_loop n env 0 (replicate 7 (CHR 0x00)) r"

section \<open>The spec's view of the transitions\<close>

text \<open>
  The spec's seven operations, each dispatched to the source function it names. The error
  of \<open>MarkSendError\<close> and \<open>MarkBackoff\<close> is a non-nil one.
\<close>

datatype 'p op =
    MarkSent
  | MarkSendError error
  | MarkBackoff error time
  | MarkOpened 'p
  | MarkClicked 'p
  | MarkSubmitted 'p
  | MarkReported 'p

fun transition :: "'p env \<Rightarrow> 'p op \<Rightarrow> Result \<Rightarrow> store \<Rightarrow> outcome \<times> Result \<times> store" where
  "transition env MarkSent r s = HandleEmailSent env r s"
| "transition env (MarkSendError err) r s = HandleEmailError env r (Some err) s"
| "transition env (MarkBackoff err sendDate) r s = HandleEmailBackoff env r (Some err) sendDate s"
| "transition env (MarkOpened d) r s = HandleEmailOpened env r d s"
| "transition env (MarkClicked d) r s = HandleClickedLink env r d s"
| "transition env (MarkSubmitted d) r s = HandleFormSubmit env r d s"
| "transition env (MarkReported d) r s = HandleEmailReport env r d s"

text \<open>The detail payload each operation hands to \<^verbatim>\<open>createEvent\<close>, read off the source.\<close>

fun op_details :: "'p op \<Rightarrow> 'p details option" where
  "op_details MarkSent = None"
| "op_details (MarkSendError err) = Some (EventError (Error err))"
| "op_details (MarkBackoff err sendDate) = Some (EventError (Error err))"
| "op_details (MarkOpened d) = Some (EventDetails d)"
| "op_details (MarkClicked d) = Some (EventDetails d)"
| "op_details (MarkSubmitted d) = Some (EventDetails d)"
| "op_details (MarkReported d) = Some (EventDetails d)"

text \<open>The guards of the source: the status test before the early \<^verbatim>\<open>return nil\<close>.\<close>

fun guarded :: "'p op \<Rightarrow> Result \<Rightarrow> bool" where
  "guarded (MarkOpened d) r = (Status r = EVENT_CLICKED \<or> Status r = EVENT_DATA_SUBMIT)"
| "guarded (MarkClicked d) r = (Status r = EVENT_DATA_SUBMIT)"
| "guarded _ r = False"

text \<open>
  The spec's table of section 4.1, column "Event kind recorded", in the spec's words.
\<close>

fun spec_event_kind :: "'p op \<Rightarrow> string" where
  "spec_event_kind MarkSent = ''sent''"
| "spec_event_kind (MarkSendError err) = ''sending-error''"
| "spec_event_kind (MarkBackoff err sendDate) = ''sending-error''"
| "spec_event_kind (MarkOpened d) = ''opened''"
| "spec_event_kind (MarkClicked d) = ''clicked''"
| "spec_event_kind (MarkSubmitted d) = ''submitted-data''"
| "spec_event_kind (MarkReported d) = ''reported''"

text \<open>
  The spec's funnel order \<^verbatim>\<open>queued\<close>, \<^verbatim>\<open>sent\<close>, \<^verbatim>\<open>opened\<close>, \<^verbatim>\<open>clicked\<close>, \<^verbatim>\<open>submitted-data\<close>,
  in the spec's words. The orthogonal states \<^verbatim>\<open>sending-error\<close> and \<^verbatim>\<open>retry\<close>, and any
  other string, have no place in it.
\<close>

definition spec_funnel_rank :: "string \<Rightarrow> nat option" where
  "spec_funnel_rank st =
     (if st = ''queued'' then Some 0
      else if st = ''sent'' then Some 1
      else if st = ''opened'' then Some 2
      else if st = ''clicked'' then Some 3
      else if st = ''submitted-data'' then Some 4
      else None)"

text \<open>A status change regresses when both ends are in the funnel and the new one is earlier.\<close>

definition regresses :: "string \<Rightarrow> string \<Rightarrow> bool" where
  "regresses old new =
     (case spec_funnel_rank old of
        None \<Rightarrow> False
      | Some a \<Rightarrow> (case spec_funnel_rank new of None \<Rightarrow> False | Some b \<Rightarrow> b < a))"

text \<open>
  A sequence of operations on one record, each with the collaborators' answers during that
  call: the list of the record's statuses, before the first call and after each call.
\<close>

fun statuses :: "('p env \<times> 'p op) list \<Rightarrow> Result \<Rightarrow> store \<Rightarrow> string list" where
  "statuses [] r s = [Status r]"
| "statuses ((env, a) # rest) r s =
     (case transition env a r s of (_, r', s') \<Rightarrow> Status r # statuses rest r' s')"

fun no_regress :: "string list \<Rightarrow> bool" where
  "no_regress (a # b # rest) = (\<not> regresses a b \<and> no_regress (b # rest))"
| "no_regress _ = True"

section \<open>Fixtures\<close>

text \<open>
  A record of campaign 1 and user 1, and collaborators that know this campaign, stamp
  events with instant 100, never fail to write, resolve \<^verbatim>\<open>8.8.8.8\<close> and reject the nil
  address, and draw 0, 1, 2, ... from the random source.
\<close>

definition fixture_result :: Result where
  "fixture_result =
     \<lparr>Result_Id = 1, CampaignId = 1, UserId = 1, RId = ''Xy12abZ'',
      Email = ''jane@example.com'', FirstName = ''Jane'', LastName = ''Doe'',
      Position = ''Engineer'', Status = STATUS_QUEUED, IP = [], Latitude = 0, Longitude = 0,
      SendDate = 10, Reported = False, ModifiedDate = 10\<rparr>"

definition fixture_city :: mmCity where
  "fixture_city = \<lparr>GeoPoint = \<lparr>GeoPoint_Latitude = 0x4042B33333333333,
                                 GeoPoint_Longitude = 0xC058666666666666\<rparr>\<rparr>"

definition fixture_reader :: "net_IP option \<Rightarrow> error + mmCity" where
  "fixture_reader ip =
     (case ip of
        None \<Rightarrow> Inl (Err ''IP passed to Lookup cannot be nil'')
      | Some a \<Rightarrow> Inr fixture_city)"

definition fixture_env :: "string env" where
  "fixture_env =
     \<lparr>GetCampaign = (\<lambda>cid uid. if cid = 1 \<and> uid = 1 then Inr \<lparr>Campaign_Id = 1\<rparr>
                                 else Inl ErrRecordNotFound),
      json_Marshal = (\<lambda>d. case d of EventError msg \<Rightarrow> Inr msg | EventDetails p \<Rightarrow> Inr p),
      time_Now = 100,
      AddEvent_Error = (\<lambda>e. None),
      Save_Error = (\<lambda>r. None),
      maxminddb_Open = Inr fixture_reader,
      net_ParseIP = (\<lambda>a. if a = ''8.8.8.8'' then Some [8, 8, 8, 8] else None),
      rand_Int = (\<lambda>d m. Inr (d mod m)),
      First_Error = (\<lambda>k. if k = ''abcdefg'' then None else Some ErrRecordNotFound)\<rparr>"

definition empty_store :: store where
  "empty_store = \<lparr>event_log = [], saved = []\<rparr>"

section \<open>Properties\<close>

lemmas status_defs =
  STATUS_QUEUED_def EVENT_SENT_def EVENT_SENDING_ERROR_def ERROR_def STATUS_RETRY_def
  EVENT_OPENED_def EVENT_CLICKED_def EVENT_DATA_SUBMIT_def EVENT_REPORTED_def

lemmas handler_defs =
  HandleEmailSent_def HandleEmailError_def HandleEmailBackoff_def HandleEmailOpened_def
  HandleClickedLink_def HandleFormSubmit_def HandleEmailReport_def

subsection \<open>Event creation\<close>

lemma createEvent_lookup_failed:
  "GetCampaign env (CampaignId r) (UserId r) = Inl err \<Longrightarrow> createEvent env r kind dt s = (Inl err, s)"
  by (simp add: createEvent_def)

lemma createEvent_marshal_failed:
  "GetCampaign env (CampaignId r) (UserId r) = Inr c \<Longrightarrow> json_Marshal env d = Inl err \<Longrightarrow>
   createEvent env r kind (Some d) s = (Inl err, s)"
  by (simp add: createEvent_def)

lemma createEvent_created:
  assumes "GetCampaign env (CampaignId r) (UserId r) = Inr c"
    and "case dt of None \<Rightarrow> dj = [] | Some d \<Rightarrow> json_Marshal env d = Inr dj"
  shows "createEvent env r kind dt s =
     (Inr \<lparr>Event_Email = Email r, Message = kind, Details = dj, Time = time_Now env\<rparr>,
      snd (snd (AddEvent env c \<lparr>Event_Email = Email r, Message = kind, Details = dj, Time = 0\<rparr> s)))"
  using assms
  by (auto simp: createEvent_def Let_def AddEvent_def split: option.splits sum.splits prod.splits)

subsection \<open>The guards\<close>

text \<open>
  C3. \<^verbatim>\<open>HandleEmailOpened\<close> leaves the status as it is when it is \<^verbatim>\<open>clicked\<close> or
  \<^verbatim>\<open>submitted-data\<close>, and \<^verbatim>\<open>HandleClickedLink\<close> when it is \<^verbatim>\<open>submitted-data\<close>, whatever the
  collaborators answer. When the event is created (the campaign is found and the payload
  marshals), a guarded call returns nil and leaves the whole record as it was, and an
  unguarded call sets the status to \<^verbatim>\<open>opened\<close>, respectively \<^verbatim>\<open>clicked\<close>.
\<close>

theorem guard_behaviour:
  "(Status r = EVENT_CLICKED \<or> Status r = EVENT_DATA_SUBMIT \<longrightarrow>
      Status (fst (snd (HandleEmailOpened env r d s))) = Status r) \<and>
   (Status r = EVENT_DATA_SUBMIT \<longrightarrow>
      Status (fst (snd (HandleClickedLink env r d s))) = Status r) \<and>
   (GetCampaign env (CampaignId r) (UserId r) = Inr c \<and> json_Marshal env (EventDetails d) = Inr dj \<longrightarrow>
      (if Status r = EVENT_CLICKED \<or> Status r = EVENT_DATA_SUBMIT
       then fst (HandleEmailOpened env r d s) = Return None \<and>
            fst (snd (HandleEmailOpened env r d s)) = r
       else Status (fst (snd (HandleEmailOpened env r d s))) = EVENT_OPENED) \<and>
      (if Status r = EVENT_DATA_SUBMIT
       then fst (HandleClickedLink env r d s) = Return None \<and>
            fst (snd (HandleClickedLink env r d s)) = r
       else Status (fst (snd (HandleClickedLink env r d s))) = EVENT_CLICKED))"
proof -
  have g1: "Status (fst (snd (HandleEmailOpened env r d s))) = Status r"
    if "Status r = EVENT_CLICKED \<or> Status r = EVENT_DATA_SUBMIT"
    using that by (auto simp: HandleEmailOpened_def split: prod.splits sum.splits)
  have g2: "Status (fst (snd (HandleClickedLink env r d s))) = Status r"
    if "Status r = EVENT_DATA_SUBMIT"
    using that by (auto simp: HandleClickedLink_def split: prod.splits sum.splits)
  have g3: "(if Status r = EVENT_CLICKED \<or> Status r = EVENT_DATA_SUBMIT
       then fst (HandleEmailOpened env r d s) = Return None \<and>
            fst (snd (HandleEmailOpened env r d s)) = r
       else Status (fst (snd (HandleEmailOpened env r d s))) = EVENT_OPENED)"
    if "GetCampaign env (CampaignId r) (UserId r) = Inr c" "json_Marshal env (EventDetails d) = Inr dj"
    using that createEvent_created [where env = env and r = r and c = c and dj = dj and s = s
        and dt = "Some (EventDetails d)" and kind = EVENT_OPENED]
    by (simp add: HandleEmailOpened_def Let_def split: prod.splits)
  have g4: "(if Status r = EVENT_DATA_SUBMIT
       then fst (HandleClickedLink env r d s) = Return None \<and>
            fst (snd (HandleClickedLink env r d s)) = r
       else Status (fst (snd (HandleClickedLink env r d s))) = EVENT_CLICKED)"
    if "GetCampaign env (CampaignId r) (UserId r) = Inr c" "json_Marshal env (EventDetails d) = Inr dj"
    using that createEvent_created [where env = env and r = r and c = c and dj = dj and s = s
        and dt = "Some (EventDetails d)" and kind = EVENT_CLICKED]
    by (simp add: HandleClickedLink_def Let_def split: prod.splits)
  from g1 g2 g3 g4 show ?thesis by blast
qed

theorem guard_behaviour_witness:
  "Status (fixture_result\<lparr>Status := EVENT_DATA_SUBMIT\<rparr>) = EVENT_DATA_SUBMIT \<and>
   GetCampaign fixture_env (CampaignId fixture_result) (UserId fixture_result) =
     Inr \<lparr>Campaign_Id = 1\<rparr> \<and>
   json_Marshal fixture_env (EventDetails ''pixel'') = Inr ''pixel'' \<and>
   fst (HandleEmailOpened fixture_env (fixture_result\<lparr>Status := EVENT_DATA_SUBMIT\<rparr>) ''pixel''
     empty_store) = Return None \<and>
   Status (fst (snd (HandleEmailOpened fixture_env (fixture_result\<lparr>Status := EVENT_DATA_SUBMIT\<rparr>)
     ''pixel'' empty_store))) = EVENT_DATA_SUBMIT \<and>
   fst (HandleClickedLink fixture_env (fixture_result\<lparr>Status := EVENT_DATA_SUBMIT\<rparr>) ''pixel''
     empty_store) = Return None \<and>
   Status (fst (snd (HandleClickedLink fixture_env (fixture_result\<lparr>Status := EVENT_DATA_SUBMIT\<rparr>)
     ''pixel'' empty_store))) = EVENT_DATA_SUBMIT \<and>
   Status fixture_result = STATUS_QUEUED \<and>
   Status (fst (snd (HandleEmailOpened fixture_env fixture_result ''pixel'' empty_store))) =
     EVENT_OPENED \<and>
   Status (fst (snd (HandleClickedLink fixture_env fixture_result ''pixel'' empty_store))) =
     EVENT_CLICKED"
  using guard_behaviour [of "fixture_result\<lparr>Status := EVENT_DATA_SUBMIT\<rparr>" fixture_env
      "''pixel''" empty_store "\<lparr>Campaign_Id = 1\<rparr>" "''pixel''"]
    guard_behaviour [of fixture_result fixture_env "''pixel''" empty_store
      "\<lparr>Campaign_Id = 1\<rparr>" "''pixel''"]
  by (simp add: fixture_env_def fixture_result_def status_defs)

lemmas model_defs = createEvent_def AddEvent_def db_Save_def Let_def

subsection \<open>Failure of the campaign lookup\<close>

text \<open>
  C9. When \<^verbatim>\<open>GetCampaign\<close> fails for the record's campaign and user (with \<^verbatim>\<open>NotFound\<close> or
  any other error), every transition returns that error and leaves the record and the
  store exactly as they were: no field is changed, no event is logged, no row is saved.
\<close>

theorem campaign_lookup_failure_atomic:
  "GetCampaign env (CampaignId r) (UserId r) = Inl err \<Longrightarrow>
   transition env a r s = (Return (Some err), r, s)"
  by (cases a) (simp_all add: handler_defs createEvent_lookup_failed)

theorem campaign_lookup_failure_atomic_witness:
  "GetCampaign fixture_env (CampaignId (fixture_result\<lparr>CampaignId := 2\<rparr>))
      (UserId (fixture_result\<lparr>CampaignId := 2\<rparr>)) = Inl ErrRecordNotFound \<and>
   transition fixture_env (MarkClicked ''link'') (fixture_result\<lparr>CampaignId := 2\<rparr>) empty_store =
     (Return (Some ErrRecordNotFound), fixture_result\<lparr>CampaignId := 2\<rparr>, empty_store)"
  using campaign_lookup_failure_atomic [of fixture_env "fixture_result\<lparr>CampaignId := 2\<rparr>"
      ErrRecordNotFound "MarkClicked ''link''" empty_store]
  by (simp add: fixture_env_def fixture_result_def)

subsection \<open>The record after a transition whose event was created\<close>

lemma HandleEmailSent_created:
  "GetCampaign env (CampaignId r) (UserId r) = Inr c \<Longrightarrow>
   fst (snd (HandleEmailSent env r s)) = r\<lparr>Status := EVENT_SENT, ModifiedDate := time_Now env\<rparr>"
  by (simp add: HandleEmailSent_def model_defs split: option.splits)

lemma HandleEmailError_created:
  "GetCampaign env (CampaignId r) (UserId r) = Inr c \<Longrightarrow>
   json_Marshal env (EventError (Error e)) = Inr dj \<Longrightarrow>
   fst (snd (HandleEmailError env r (Some e) s)) = r\<lparr>Status := ERROR, ModifiedDate := time_Now env\<rparr>"
  by (simp add: HandleEmailError_def model_defs split: option.splits)

lemma HandleEmailBackoff_created:
  "GetCampaign env (CampaignId r) (UserId r) = Inr c \<Longrightarrow>
   json_Marshal env (EventError (Error e)) = Inr dj \<Longrightarrow>
   fst (snd (HandleEmailBackoff env r (Some e) sendDate s)) =
     r\<lparr>Status := STATUS_RETRY, SendDate := sendDate, ModifiedDate := time_Now env\<rparr>"
  by (simp add: HandleEmailBackoff_def model_defs split: option.splits)

lemma HandleEmailReport_created:
  "GetCampaign env (CampaignId r) (UserId r) = Inr c \<Longrightarrow>
   json_Marshal env (EventDetails d) = Inr dj \<Longrightarrow>
   fst (snd (HandleEmailReport env r d s)) = r\<lparr>Reported := True, ModifiedDate := time_Now env\<rparr>"
  by (simp add: HandleEmailReport_def model_defs split: option.splits)

subsection \<open>Send error, back-off, sent\<close>

text \<open>
  C2. On one record, with the campaign found and the error payload marshalled in each call
  (and whatever the store holds in between): \<^verbatim>\<open>HandleEmailError\<close> sets the status to
  \<^verbatim>\<open>sending-error\<close>, a later \<^verbatim>\<open>HandleEmailBackoff\<close> sets it to \<^verbatim>\<open>retry\<close> and the send date to the
  time supplied, and a later \<^verbatim>\<open>HandleEmailSent\<close> sets it to \<^verbatim>\<open>sent\<close>.
\<close>

theorem send_error_then_retry:
  assumes "GetCampaign env1 (CampaignId r) (UserId r) = Inr c1"
    and "json_Marshal env1 (EventError (Error e1)) = Inr dj1"
    and "GetCampaign env2 (CampaignId r) (UserId r) = Inr c2"
    and "json_Marshal env2 (EventError (Error e2)) = Inr dj2"
    and "GetCampaign env3 (CampaignId r) (UserId r) = Inr c3"
    and "r1 = fst (snd (HandleEmailError env1 r (Some e1) s))"
    and "r2 = fst (snd (HandleEmailBackoff env2 r1 (Some e2) sendDate s1))"
    and "r3 = fst (snd (HandleEmailSent env3 r2 s2))"
  shows "Status r1 = ERROR \<and> Status r2 = STATUS_RETRY \<and> SendDate r2 = sendDate \<and>
         Status r3 = EVENT_SENT"
proof -
  have 1: "r1 = r\<lparr>Status := ERROR, ModifiedDate := time_Now env1\<rparr>"
    using assms(1,2,6) by (simp add: HandleEmailError_created)
  have "GetCampaign env2 (CampaignId r1) (UserId r1) = Inr c2"
    using 1 assms(3) by simp
  then have 2: "r2 = r1\<lparr>Status := STATUS_RETRY, SendDate := sendDate, ModifiedDate := time_Now env2\<rparr>"
    using assms(4,7) by (simp add: HandleEmailBackoff_created)
  have "GetCampaign env3 (CampaignId r2) (UserId r2) = Inr c3"
    using 1 2 assms(5) by simp
  then have 3: "r3 = r2\<lparr>Status := EVENT_SENT, ModifiedDate := time_Now env3\<rparr>"
    using assms(8) by (simp add: HandleEmailSent_created)
  from 1 2 3 show ?thesis by simp
qed


theorem send_error_then_retry_witness:
  "GetCampaign fixture_env (CampaignId fixture_result) (UserId fixture_result) = Inr \<lparr>Campaign_Id = 1\<rparr> \<and>
   json_Marshal fixture_env (EventError (Error (Err ''connection refused''))) = Inr ''connection refused'' \<and>
   Status (fst (snd (HandleEmailError fixture_env fixture_result (Some (Err ''connection refused'')) empty_store))) = ERROR \<and>
   Status (fst (snd (HandleEmailBackoff fixture_env
      (fst (snd (HandleEmailError fixture_env fixture_result (Some (Err ''connection refused'')) empty_store)))
      (Some (Err ''connection refused'')) 500 empty_store))) = STATUS_RETRY \<and>
   SendDate (fst (snd (HandleEmailBackoff fixture_env
      (fst (snd (HandleEmailError fixture_env fixture_result (Some (Err ''connection refused'')) empty_store)))
      (Some (Err ''connection refused'')) 500 empty_store))) = 500 \<and>
   Status (fst (snd (HandleEmailSent fixture_env
      (fst (snd (HandleEmailBackoff fixture_env
        (fst (snd (HandleEmailError fixture_env fixture_result (Some (Err ''connection refused'')) empty_store)))
        (Some (Err ''connection refused'')) 500 empty_store)))
      empty_store))) = EVENT_SENT"
proof -
  have l: "GetCampaign fixture_env (CampaignId fixture_result) (UserId fixture_result) = Inr \<lparr>Campaign_Id = 1\<rparr>"
    by (simp add: fixture_env_def fixture_result_def)
  have m: "json_Marshal fixture_env (EventError (Error (Err ''connection refused''))) = Inr ''connection refused''"
    by (simp add: fixture_env_def)
  from send_error_then_retry [OF l m l m l refl refl refl, where sendDate = 500 and s = empty_store
      and ?s1.0 = empty_store and ?s2.0 = empty_store] l m
  show ?thesis by simp
qed

subsection \<open>Reports\<close>

text \<open>
  C7. \<^verbatim>\<open>HandleEmailReport\<close> never changes the status and never clears \<^verbatim>\<open>Reported\<close>. When the
  event is created it sets \<^verbatim>\<open>Reported\<close>; a second call leaves it set, and when both appends
  succeed the log has grown by the two \<^verbatim>\<open>reported\<close> events, one per call.
\<close>

theorem reported_independent:
  "Status (fst (snd (HandleEmailReport env r d s))) = Status r \<and>
   (GetCampaign env (CampaignId r) (UserId r) = Inr c \<and> json_Marshal env (EventDetails d) = Inr dj \<longrightarrow>
      Reported (fst (snd (HandleEmailReport env r d s)))) \<and>
   (GetCampaign env (CampaignId r) (UserId r) = Inr c \<and> json_Marshal env (EventDetails d) = Inr dj \<and>
    GetCampaign env' (CampaignId r) (UserId r) = Inr c' \<and> json_Marshal env' (EventDetails d') = Inr dj' \<longrightarrow>
      Reported (fst (snd (HandleEmailReport env' (fst (snd (HandleEmailReport env r d s))) d'
         (snd (snd (HandleEmailReport env r d s)))))) \<and>
      Status (fst (snd (HandleEmailReport env' (fst (snd (HandleEmailReport env r d s))) d'
         (snd (snd (HandleEmailReport env r d s)))))) = Status r \<and>
      (AddEvent_Error env \<lparr>Event_Email = Email r, Message = EVENT_REPORTED, Details = dj, Time = time_Now env\<rparr> = None \<and>
       AddEvent_Error env' \<lparr>Event_Email = Email r, Message = EVENT_REPORTED, Details = dj', Time = time_Now env'\<rparr> = None \<longrightarrow>
         event_log (snd (snd (HandleEmailReport env' (fst (snd (HandleEmailReport env r d s))) d'
            (snd (snd (HandleEmailReport env r d s)))))) =
         event_log s @
           [(Campaign_Id c, \<lparr>Event_Email = Email r, Message = EVENT_REPORTED, Details = dj, Time = time_Now env\<rparr>),
            (Campaign_Id c', \<lparr>Event_Email = Email r, Message = EVENT_REPORTED, Details = dj', Time = time_Now env'\<rparr>)]))"
  by (auto simp: HandleEmailReport_def model_defs split: option.splits sum.splits prod.splits)

theorem reported_independent_witness:
  "GetCampaign fixture_env (CampaignId fixture_result) (UserId fixture_result) = Inr \<lparr>Campaign_Id = 1\<rparr> \<and>
   json_Marshal fixture_env (EventDetails ''first'') = Inr ''first'' \<and>
   json_Marshal fixture_env (EventDetails ''second'') = Inr ''second'' \<and>
   AddEvent_Error fixture_env \<lparr>Event_Email = Email fixture_result, Message = EVENT_REPORTED,
      Details = ''first'', Time = time_Now fixture_env\<rparr> = None \<and>
   AddEvent_Error fixture_env \<lparr>Event_Email = Email fixture_result, Message = EVENT_REPORTED,
      Details = ''second'', Time = time_Now fixture_env\<rparr> = None \<and>
   Reported (fst (snd (HandleEmailReport fixture_env fixture_result ''first'' empty_store))) \<and>
   Reported (fst (snd (HandleEmailReport fixture_env
      (fst (snd (HandleEmailReport fixture_env fixture_result ''first'' empty_store))) ''second''
      (snd (snd (HandleEmailReport fixture_env fixture_result ''first'' empty_store)))))) \<and>
   Status (fst (snd (HandleEmailReport fixture_env
      (fst (snd (HandleEmailReport fixture_env fixture_result ''first'' empty_store))) ''second''
      (snd (snd (HandleEmailReport fixture_env fixture_result ''first'' empty_store)))))) = STATUS_QUEUED \<and>
   event_log (snd (snd (HandleEmailReport fixture_env
      (fst (snd (HandleEmailReport fixture_env fixture_result ''first'' empty_store))) ''second''
      (snd (snd (HandleEmailReport fixture_env fixture_result ''first'' empty_store)))))) =
     [(1, \<lparr>Event_Email = ''jane@example.com'', Message = EVENT_REPORTED, Details = ''first'', Time = 100\<rparr>),
      (1, \<lparr>Event_Email = ''jane@example.com'', Message = EVENT_REPORTED, Details = ''second'', Time = 100\<rparr>)]"
proof -
  have l: "GetCampaign fixture_env (CampaignId fixture_result) (UserId fixture_result) = Inr \<lparr>Campaign_Id = 1\<rparr>"
    by (simp add: fixture_env_def fixture_result_def)
  have m: "json_Marshal fixture_env (EventDetails ''first'') = Inr ''first''"
      "json_Marshal fixture_env (EventDetails ''second'') = Inr ''second''"
    by (simp_all add: fixture_env_def)
  have a: "AddEvent_Error fixture_env e = None" for e
    by (simp add: fixture_env_def)
  have f: "Status fixture_result = STATUS_QUEUED" "Email fixture_result = ''jane@example.com''"
      "time_Now fixture_env = 100" "event_log empty_store = []"
    by (simp_all add: fixture_result_def fixture_env_def empty_store_def)
  from reported_independent [of fixture_env fixture_result "''first''" empty_store
      "\<lparr>Campaign_Id = 1\<rparr>" "''first''" fixture_env "\<lparr>Campaign_Id = 1\<rparr>" "''second''" "''second''"]
    l m a f
  show ?thesis by simp
qed

subsection \<open>The event log\<close>

text \<open>
  C8. When the campaign is found, the payload marshals and the append succeeds, every
  transition leaves the event log longer by exactly its own event: the record's email, the
  event kind of the spec's table, the marshalled payload and the recorded time. This holds
  for guarded calls as for all others.
\<close>

theorem every_transition_appends_event:
  assumes "GetCampaign env (CampaignId r) (UserId r) = Inr c"
    and "case op_details a of None \<Rightarrow> dj = [] | Some d \<Rightarrow> json_Marshal env d = Inr dj"
    and "AddEvent_Error env \<lparr>Event_Email = Email r, Message = spec_event_kind a, Details = dj,
           Time = time_Now env\<rparr> = None"
  shows "event_log (snd (snd (transition env a r s))) =
           event_log s @ [(Campaign_Id c, \<lparr>Event_Email = Email r, Message = spec_event_kind a,
                                            Details = dj, Time = time_Now env\<rparr>)]"
  using assms
  by (cases a) (auto simp: handler_defs model_defs status_defs split: option.splits)

theorem every_transition_appends_event_witness:
  "guarded (MarkOpened ''pixel'') (fixture_result\<lparr>Status := EVENT_CLICKED\<rparr>) \<and>
   GetCampaign fixture_env (CampaignId (fixture_result\<lparr>Status := EVENT_CLICKED\<rparr>))
      (UserId (fixture_result\<lparr>Status := EVENT_CLICKED\<rparr>)) = Inr \<lparr>Campaign_Id = 1\<rparr> \<and>
   json_Marshal fixture_env (EventDetails ''pixel'') = Inr ''pixel'' \<and>
   event_log (snd (snd (transition fixture_env (MarkOpened ''pixel'')
      (fixture_result\<lparr>Status := EVENT_CLICKED\<rparr>) empty_store))) =
     [(1, \<lparr>Event_Email = ''jane@example.com'', Message = ''opened'', Details = ''pixel'', Time = 100\<rparr>)]"
proof -
  have l: "GetCampaign fixture_env (CampaignId (fixture_result\<lparr>Status := EVENT_CLICKED\<rparr>))
      (UserId (fixture_result\<lparr>Status := EVENT_CLICKED\<rparr>)) = Inr \<lparr>Campaign_Id = 1\<rparr>"
    by (simp add: fixture_env_def fixture_result_def)
  have m: "case op_details (MarkOpened ''pixel'') of None \<Rightarrow> ''pixel'' = []
      | Some d \<Rightarrow> json_Marshal fixture_env d = Inr ''pixel''"
    by (simp add: fixture_env_def)
  have a: "AddEvent_Error fixture_env e = None" for e
    by (simp add: fixture_env_def)
  from every_transition_appends_event [OF l m a, of empty_store]
  show ?thesis by (simp add: fixture_env_def fixture_result_def empty_store_def)
qed

subsection \<open>The modification date\<close>

text \<open>
  C6 as stated fails on a guarded call: \<^verbatim>\<open>HandleEmailOpened\<close> returns nil and records
  its event at instant 100, and the record's modification date stays at 10. The early
  \<^verbatim>\<open>return nil\<close> comes before the assignment to \<^verbatim>\<open>ModifiedDate\<close>.
\<close>

theorem modified_date_guarded_counterexample:
  "fst (transition fixture_env (MarkOpened ''pixel'') (fixture_result\<lparr>Status := EVENT_CLICKED\<rparr>)
      empty_store) = Return None \<and>
   map (Time \<circ> snd) (event_log (snd (snd (transition fixture_env (MarkOpened ''pixel'')
      (fixture_result\<lparr>Status := EVENT_CLICKED\<rparr>) empty_store)))) = [100] \<and>
   ModifiedDate (fst (snd (transition fixture_env (MarkOpened ''pixel'')
      (fixture_result\<lparr>Status := EVENT_CLICKED\<rparr>) empty_store))) = 10"
  by (simp add: handler_defs model_defs fixture_env_def fixture_result_def empty_store_def)

text \<open>
  C6, as the code has it. A transition that returns nil and is not stopped by its guard
  has created its event and set the modification date to the time stamped on that event.
  A transition stopped by its guard leaves the record as it was, the modification date
  included, and saves nothing.
\<close>

theorem modified_date_updated:
  "(fst (transition env a r s) = Return None \<and> \<not> guarded a r \<longrightarrow>
      (\<exists>ev s1. createEvent env r (spec_event_kind a) (op_details a) s = (Inr ev, s1) \<and>
         Time ev = time_Now env \<and>
         ModifiedDate (fst (snd (transition env a r s))) = Time ev)) \<and>
   (guarded a r \<longrightarrow> fst (snd (transition env a r s)) = r \<and>
      saved (snd (snd (transition env a r s))) = saved s)"
proof -
  have 1: "\<exists>ev s1. createEvent env r (spec_event_kind a) (op_details a) s = (Inr ev, s1) \<and>
         Time ev = time_Now env \<and>
         ModifiedDate (fst (snd (transition env a r s))) = Time ev"
    if "fst (transition env a r s) = Return None" "\<not> guarded a r"
    using that
    by (cases a)
      (auto simp: handler_defs model_defs status_defs split: option.splits sum.splits prod.splits if_splits)
  have 2: "fst (snd (transition env a r s)) = r \<and> saved (snd (snd (transition env a r s))) = saved s"
    if "guarded a r"
    using that
    by (cases a)
      (auto simp: handler_defs model_defs status_defs split: option.splits sum.splits prod.splits)
  from 1 2 show ?thesis by blast
qed

theorem modified_date_updated_witness:
  "fst (transition fixture_env (MarkClicked ''link'') fixture_result empty_store) = Return None \<and>
   \<not> guarded (MarkClicked ''link'') fixture_result \<and>
   ModifiedDate (fst (snd (transition fixture_env (MarkClicked ''link'') fixture_result empty_store))) =
     time_Now fixture_env \<and>
   guarded (MarkClicked ''link'') (fixture_result\<lparr>Status := EVENT_DATA_SUBMIT\<rparr>) \<and>
   fst (snd (transition fixture_env (MarkClicked ''link'')
      (fixture_result\<lparr>Status := EVENT_DATA_SUBMIT\<rparr>) empty_store)) =
     fixture_result\<lparr>Status := EVENT_DATA_SUBMIT\<rparr>"
proof -
  have 1: "fst (transition fixture_env (MarkClicked ''link'') fixture_result empty_store) = Return None"
    by (simp add: handler_defs model_defs fixture_env_def fixture_result_def empty_store_def)
  have 2: "\<not> guarded (MarkClicked ''link'') fixture_result"
    by (simp add: fixture_result_def status_defs)
  have 3: "guarded (MarkClicked ''link'') (fixture_result\<lparr>Status := EVENT_DATA_SUBMIT\<rparr>)"
    by simp
  from modified_date_updated [of fixture_env "MarkClicked ''link''" fixture_result empty_store]
    modified_date_updated [of fixture_env "MarkClicked ''link''"
      "fixture_result\<lparr>Status := EVENT_DATA_SUBMIT\<rparr>" empty_store] 1 2 3
  show ?thesis by auto
qed

subsection \<open>A failed append\<close>

text \<open>
  C4. Evaluation at a failing append: the event log rejects the event, and
  \<^verbatim>\<open>HandleEmailSent\<close> still returns nil, with the status set and the row saved.
\<close>

theorem AddEvent_failure_dropped:
  "HandleEmailSent (fixture_env\<lparr>AddEvent_Error := (\<lambda>e. Some (Err ''database is locked''))\<rparr>)
     fixture_result empty_store =
   (Return None,
    fixture_result\<lparr>Status := EVENT_SENT, ModifiedDate := 100\<rparr>,
    \<lparr>event_log = [], saved = [fixture_result\<lparr>Status := EVENT_SENT, ModifiedDate := 100\<rparr>]\<rparr>)"
  by (simp add: handler_defs model_defs fixture_env_def fixture_result_def empty_store_def)

text \<open>
  The same for every transition that its guard does not stop: with the campaign found and
  the payload marshalled, a rejected append changes nothing in what the call returns. The
  call returns what \<^verbatim>\<open>db.Save\<close> returns, and a successful save writes the row.
\<close>

lemma AddEvent_failure_ignored:
  assumes "GetCampaign env (CampaignId r) (UserId r) = Inr c"
    and "case op_details a of None \<Rightarrow> dj = [] | Some d \<Rightarrow> json_Marshal env d = Inr dj"
    and "AddEvent_Error env \<lparr>Event_Email = Email r, Message = spec_event_kind a, Details = dj,
           Time = time_Now env\<rparr> = Some err"
    and "\<not> guarded a r"
    and "transition env a r s = (out, r', s')"
  shows "out = Return (Save_Error env r') \<and> event_log s' = event_log s \<and>
         saved s' = (if Save_Error env r' = None then saved s @ [r'] else saved s)"
  using assms
  by (cases a) (auto simp: handler_defs model_defs status_defs split: option.splits)

subsection \<open>The funnel\<close>

text \<open>
  C1 as stated fails on \<^verbatim>\<open>HandleEmailSent\<close>: on a record whose status is \<^verbatim>\<open>clicked\<close> it
  sets the status to \<^verbatim>\<open>sent\<close>, two places earlier in the funnel.
\<close>

theorem funnel_regression_counterexample:
  "regresses (Status (fixture_result\<lparr>Status := EVENT_CLICKED\<rparr>))
     (Status (fst (snd (transition fixture_env MarkSent (fixture_result\<lparr>Status := EVENT_CLICKED\<rparr>)
        empty_store))))"
  by (simp add: handler_defs model_defs fixture_env_def fixture_result_def empty_store_def
      regresses_def spec_funnel_rank_def status_defs)

lemma regresses_irrefl: "\<not> regresses st st"
  by (simp add: regresses_def split: option.splits)

lemma regresses_to_orthogonal:
  "\<not> regresses st ERROR" "\<not> regresses st STATUS_RETRY"
  by (simp_all add: regresses_def spec_funnel_rank_def status_defs split: option.splits)

lemma regresses_to_submitted: "\<not> regresses st EVENT_DATA_SUBMIT"
  by (auto simp: regresses_def spec_funnel_rank_def status_defs split: option.splits if_splits)

lemma regresses_to_clicked: "regresses st EVENT_CLICKED \<longleftrightarrow> st = EVENT_DATA_SUBMIT"
  by (auto simp: regresses_def spec_funnel_rank_def status_defs split: option.splits if_splits)

lemma regresses_to_opened:
  "regresses st EVENT_OPENED \<longleftrightarrow> st = EVENT_CLICKED \<or> st = EVENT_DATA_SUBMIT"
  by (auto simp: regresses_def spec_funnel_rank_def status_defs split: option.splits if_splits)

lemma regresses_to_sent:
  "regresses st EVENT_SENT \<longleftrightarrow> st = EVENT_OPENED \<or> st = EVENT_CLICKED \<or> st = EVENT_DATA_SUBMIT"
  by (auto simp: regresses_def spec_funnel_rank_def status_defs split: option.splits if_splits)

lemmas regresses_simps =
  regresses_irrefl regresses_to_orthogonal regresses_to_submitted regresses_to_clicked
  regresses_to_opened regresses_to_sent

lemma transition_status:
  "Status (fst (snd (transition env a r s))) = Status r \<or>
   (case a of
      MarkSent \<Rightarrow> Status (fst (snd (transition env a r s))) = EVENT_SENT
    | MarkSendError e \<Rightarrow> Status (fst (snd (transition env a r s))) = ERROR
    | MarkBackoff e t \<Rightarrow> Status (fst (snd (transition env a r s))) = STATUS_RETRY
    | MarkOpened d \<Rightarrow> Status (fst (snd (transition env a r s))) = EVENT_OPENED \<and>
         Status r \<noteq> EVENT_CLICKED \<and> Status r \<noteq> EVENT_DATA_SUBMIT
    | MarkClicked d \<Rightarrow> Status (fst (snd (transition env a r s))) = EVENT_CLICKED \<and>
         Status r \<noteq> EVENT_DATA_SUBMIT
    | MarkSubmitted d \<Rightarrow> Status (fst (snd (transition env a r s))) = EVENT_DATA_SUBMIT
    | MarkReported d \<Rightarrow> False)"
  by (cases a)
    (auto simp: handler_defs Let_def db_Save_def split: option.splits sum.splits prod.splits)

lemma step_no_regress:
  "a \<noteq> MarkSent \<Longrightarrow> \<not> regresses (Status r) (Status (fst (snd (transition env a r s))))"
  using transition_status [of env a r s]
  by (cases a) (auto simp: regresses_simps)

lemma sent_regresses:
  "regresses (Status r) (Status (fst (snd (HandleEmailSent env r s)))) \<longleftrightarrow>
     (\<exists>c. GetCampaign env (CampaignId r) (UserId r) = Inr c) \<and>
     (Status r = EVENT_OPENED \<or> Status r = EVENT_CLICKED \<or> Status r = EVENT_DATA_SUBMIT)"
proof (cases "GetCampaign env (CampaignId r) (UserId r)")
  case (Inl err)
  then show ?thesis
    by (simp add: HandleEmailSent_def createEvent_lookup_failed regresses_simps)
next
  case (Inr c)
  then show ?thesis
    by (simp add: HandleEmailSent_created regresses_simps)
qed

lemma statuses_no_regress:
  "list_all (\<lambda>(env, a). a \<noteq> MarkSent) steps \<Longrightarrow> no_regress (statuses steps r s)"
proof (induction steps arbitrary: r s)
  case Nil
  then show ?case by simp
next
  case (Cons x steps)
  obtain env a where x: "x = (env, a)" by (cases x)
  obtain out r' s' where t: "transition env a r s = (out, r', s')" by (cases "transition env a r s")
  have a: "a \<noteq> MarkSent" and rest: "list_all (\<lambda>(env, a). a \<noteq> MarkSent) steps"
    using Cons.prems x by simp_all
  have step: "\<not> regresses (Status r) (Status r')"
    using step_no_regress [OF a, of r env s] t by simp
  have tl: "no_regress (statuses steps r' s')" using Cons.IH [OF rest] .
  have hd: "\<exists>rest'. statuses steps r' s' = Status r' # rest'"
    by (cases steps) (auto split: prod.splits)
  then obtain rest' where "statuses steps r' s' = Status r' # rest'" by blast
  with step tl show ?case
    by (simp add: x t)
qed


text \<open>
  C1, as the code has it. In any sequence of transitions without \<^verbatim>\<open>HandleEmailSent\<close>, no
  step moves the status to an earlier funnel value. A single transition regresses exactly
  when it is \<^verbatim>\<open>HandleEmailSent\<close>, the campaign is found and the status is \<^verbatim>\<open>opened\<close>,
  \<^verbatim>\<open>clicked\<close> or \<^verbatim>\<open>submitted-data\<close>: that function has no guard. In particular the
  status stays as it is when \<^verbatim>\<open>HandleEmailOpened\<close> arrives at \<^verbatim>\<open>clicked\<close> or
  \<^verbatim>\<open>submitted-data\<close>, and when \<^verbatim>\<open>HandleClickedLink\<close> arrives at \<^verbatim>\<open>submitted-data\<close>.
\<close>

theorem funnel_monotone_except_sent:
  "(list_all (\<lambda>(env, a). a \<noteq> MarkSent) steps \<longrightarrow> no_regress (statuses steps r s)) \<and>
   (regresses (Status r) (Status (fst (snd (transition env a r s)))) \<longleftrightarrow>
      a = MarkSent \<and> (\<exists>c. GetCampaign env (CampaignId r) (UserId r) = Inr c) \<and>
      (Status r = EVENT_OPENED \<or> Status r = EVENT_CLICKED \<or> Status r = EVENT_DATA_SUBMIT)) \<and>
   (Status r = EVENT_CLICKED \<or> Status r = EVENT_DATA_SUBMIT \<longrightarrow>
      Status (fst (snd (transition env (MarkOpened d) r s))) = Status r) \<and>
   (Status r = EVENT_DATA_SUBMIT \<longrightarrow>
      Status (fst (snd (transition env (MarkClicked d) r s))) = Status r)"
proof -
  have 1: "list_all (\<lambda>(env, a). a \<noteq> MarkSent) steps \<longrightarrow> no_regress (statuses steps r s)"
    by (simp add: statuses_no_regress)
  have 2: "regresses (Status r) (Status (fst (snd (transition env a r s)))) \<longleftrightarrow>
      a = MarkSent \<and> (\<exists>c. GetCampaign env (CampaignId r) (UserId r) = Inr c) \<and>
      (Status r = EVENT_OPENED \<or> Status r = EVENT_CLICKED \<or> Status r = EVENT_DATA_SUBMIT)"
  proof (cases "a = MarkSent")
    case True
    then show ?thesis using sent_regresses [of r env s] by simp
  next
    case False
    then show ?thesis using step_no_regress [of a r env s] by simp
  qed
  have 3: "Status r = EVENT_CLICKED \<or> Status r = EVENT_DATA_SUBMIT \<longrightarrow>
      Status (fst (snd (transition env (MarkOpened d) r s))) = Status r"
    using transition_status [of env "MarkOpened d" r s] by auto
  have 4: "Status r = EVENT_DATA_SUBMIT \<longrightarrow>
      Status (fst (snd (transition env (MarkClicked d) r s))) = Status r"
    using transition_status [of env "MarkClicked d" r s] by auto
  from 1 2 3 4 show ?thesis by blast
qed

theorem funnel_monotone_except_sent_witness:
  "list_all (\<lambda>(env, a). a \<noteq> MarkSent)
     [(fixture_env, MarkClicked ''link''), (fixture_env, MarkOpened ''pixel'')] \<and>
   no_regress (statuses [(fixture_env, MarkClicked ''link''), (fixture_env, MarkOpened ''pixel'')]
     fixture_result empty_store) \<and>
   statuses [(fixture_env, MarkClicked ''link''), (fixture_env, MarkOpened ''pixel'')]
     fixture_result empty_store = [''queued'', ''clicked'', ''clicked''] \<and>
   Status (fixture_result\<lparr>Status := EVENT_DATA_SUBMIT\<rparr>) = EVENT_DATA_SUBMIT \<and>
   Status (fst (snd (transition fixture_env (MarkOpened ''pixel'')
     (fixture_result\<lparr>Status := EVENT_DATA_SUBMIT\<rparr>) empty_store))) = EVENT_DATA_SUBMIT \<and>
   Status (fst (snd (transition fixture_env (MarkClicked ''link'')
     (fixture_result\<lparr>Status := EVENT_DATA_SUBMIT\<rparr>) empty_store))) = EVENT_DATA_SUBMIT"
proof -
  have 1: "list_all (\<lambda>(env, a). a \<noteq> MarkSent)
     [(fixture_env, MarkClicked ''link''), (fixture_env, MarkOpened ''pixel'')]"
    by simp
  have 2: "statuses [(fixture_env, MarkClicked ''link''), (fixture_env, MarkOpened ''pixel'')]
     fixture_result empty_store = [''queued'', ''clicked'', ''clicked'']"
    by (simp add: handler_defs model_defs fixture_env_def fixture_result_def empty_store_def
        status_defs)
  from funnel_monotone_except_sent [of
      "[(fixture_env, MarkClicked ''link''), (fixture_env, MarkOpened ''pixel'')]"
      fixture_result empty_store fixture_env "MarkOpened ''pixel''" "''pixel''"]
    funnel_monotone_except_sent [of "[]" "fixture_result\<lparr>Status := EVENT_DATA_SUBMIT\<rparr>"
      empty_store fixture_env "MarkOpened ''pixel''" "''pixel''"]
    funnel_monotone_except_sent [of "[]" "fixture_result\<lparr>Status := EVENT_DATA_SUBMIT\<rparr>"
      empty_store fixture_env "MarkOpened ''pixel''" "''link''"]
    1 2
  show ?thesis by simp
qed

subsection \<open>Geo enrichment\<close>

text \<open>
  C5 as stated fails when the dataset cannot be opened: \<^verbatim>\<open>UpdateGeo\<close> ends the process
  through \<^verbatim>\<open>log.Fatal\<close> and returns nothing to its caller.
\<close>

theorem UpdateGeo_open_failure_counterexample:
  "UpdateGeo (fixture_env\<lparr>maxminddb_Open := Inl (Err ''no such file or directory'')\<rparr>)
     fixture_result ''8.8.8.8'' empty_store =
   (Exit (Err ''no such file or directory''), fixture_result, empty_store)"
  by (simp add: UpdateGeo_def)

text \<open>
  C5, as the code has it. With the dataset open: when the address parses and its lookup
  succeeds, \<^verbatim>\<open>UpdateGeo\<close> sets \<^verbatim>\<open>IP\<close> to the string and the coordinates to the looked-up
  ones, returns what \<^verbatim>\<open>db.Save\<close> returns, and the row is written when the save succeeds.
  When the string does not parse, the nil address goes to the lookup, and when the lookup
  rejects it \<^verbatim>\<open>UpdateGeo\<close> returns that error with the record and the store untouched. When
  the dataset cannot be opened, the process ends (\<^verbatim>\<open>log.Fatal\<close>) with the record and the
  store untouched.
\<close>

theorem UpdateGeo_behaviour:
  "(maxminddb_Open env = Inr mmdb \<and> net_ParseIP env addr = Some ip \<and> mmdb (Some ip) = Inr city \<longrightarrow>
      fst (UpdateGeo env r addr s) =
        Return (Save_Error env (r\<lparr>IP := addr, Latitude := GeoPoint_Latitude (GeoPoint city),
                                   Longitude := GeoPoint_Longitude (GeoPoint city)\<rparr>)) \<and>
      fst (snd (UpdateGeo env r addr s)) =
        r\<lparr>IP := addr, Latitude := GeoPoint_Latitude (GeoPoint city),
           Longitude := GeoPoint_Longitude (GeoPoint city)\<rparr> \<and>
      snd (snd (UpdateGeo env r addr s)) =
        (if fst (UpdateGeo env r addr s) = Return None
         then s\<lparr>saved := saved s @ [fst (snd (UpdateGeo env r addr s))]\<rparr> else s)) \<and>
   (maxminddb_Open env = Inr mmdb \<and> net_ParseIP env addr = None \<and> mmdb None = Inl err \<longrightarrow>
      UpdateGeo env r addr s = (Return (Some err), r, s)) \<and>
   (maxminddb_Open env = Inl err \<longrightarrow> UpdateGeo env r addr s = (Exit err, r, s))"
  by (auto simp: UpdateGeo_def db_Save_def Let_def split: option.splits)

theorem UpdateGeo_behaviour_witness:
  "maxminddb_Open fixture_env = Inr fixture_reader \<and>
   net_ParseIP fixture_env ''8.8.8.8'' = Some [8, 8, 8, 8] \<and>
   fixture_reader (Some [8, 8, 8, 8]) = Inr fixture_city \<and>
   UpdateGeo fixture_env fixture_result ''8.8.8.8'' empty_store =
     (Return None,
      fixture_result\<lparr>IP := ''8.8.8.8'', Latitude := 0x4042B33333333333,
                       Longitude := 0xC058666666666666\<rparr>,
      \<lparr>event_log = [],
       saved = [fixture_result\<lparr>IP := ''8.8.8.8'', Latitude := 0x4042B33333333333,
                                 Longitude := 0xC058666666666666\<rparr>]\<rparr>) \<and>
   net_ParseIP fixture_env ''not an address'' = None \<and>
   fixture_reader None = Inl (Err ''IP passed to Lookup cannot be nil'') \<and>
   UpdateGeo fixture_env fixture_result ''not an address'' empty_store =
     (Return (Some (Err ''IP passed to Lookup cannot be nil'')), fixture_result, empty_store) \<and>
   maxminddb_Open (fixture_env\<lparr>maxminddb_Open := Inl (Err ''no such file or directory'')\<rparr>) =
     Inl (Err ''no such file or directory'') \<and>
   fst (UpdateGeo (fixture_env\<lparr>maxminddb_Open := Inl (Err ''no such file or directory'')\<rparr>)
     fixture_result ''not an address'' empty_store) = Exit (Err ''no such file or directory'')"
proof -
  have o: "maxminddb_Open fixture_env = Inr fixture_reader"
    and p: "net_ParseIP fixture_env ''8.8.8.8'' = Some [8, 8, 8, 8]"
    and q: "net_ParseIP fixture_env ''not an address'' = None"
    and sv: "Save_Error fixture_env x = None" for x
    by (simp_all add: fixture_env_def)
  have l: "fixture_reader (Some [8, 8, 8, 8]) = Inr fixture_city"
    and n: "fixture_reader None = Inl (Err ''IP passed to Lookup cannot be nil'')"
    by (simp_all add: fixture_reader_def)
  have c: "GeoPoint_Latitude (GeoPoint fixture_city) = 0x4042B33333333333"
    "GeoPoint_Longitude (GeoPoint fixture_city) = 0xC058666666666666"
    by (simp_all add: fixture_city_def)
  have e: "maxminddb_Open (fixture_env\<lparr>maxminddb_Open := Inl (Err ''no such file or directory'')\<rparr>) =
     Inl (Err ''no such file or directory'')"
    by simp
  have a: "UpdateGeo fixture_env fixture_result ''8.8.8.8'' empty_store =
     (Return None,
      fixture_result\<lparr>IP := ''8.8.8.8'', Latitude := 0x4042B33333333333,
                       Longitude := 0xC058666666666666\<rparr>,
      \<lparr>event_log = [],
       saved = [fixture_result\<lparr>IP := ''8.8.8.8'', Latitude := 0x4042B33333333333,
                                 Longitude := 0xC058666666666666\<rparr>]\<rparr>)"
    using UpdateGeo_behaviour [where env = fixture_env and mmdb = fixture_reader
        and addr = "''8.8.8.8''" and ip = "[8, 8, 8, 8]" and city = fixture_city
        and r = fixture_result and s = empty_store] o p l c sv
    by (simp add: prod_eq_iff empty_store_def)
  have b: "UpdateGeo fixture_env fixture_result ''not an address'' empty_store =
     (Return (Some (Err ''IP passed to Lookup cannot be nil'')), fixture_result, empty_store)"
    using UpdateGeo_behaviour [where env = fixture_env and mmdb = fixture_reader
        and addr = "''not an address''" and err = "Err ''IP passed to Lookup cannot be nil''"
        and r = fixture_result and s = empty_store] o q n
    by simp
  have d: "fst (UpdateGeo (fixture_env\<lparr>maxminddb_Open := Inl (Err ''no such file or directory'')\<rparr>)
     fixture_result ''not an address'' empty_store) = Exit (Err ''no such file or directory'')"
    using UpdateGeo_behaviour [where env = "fixture_env\<lparr>maxminddb_Open := Inl (Err ''no such file or directory'')\<rparr>"
        and addr = "''not an address''" and err = "Err ''no such file or directory''"
        and r = fixture_result and s = empty_store] e
    by simp
  from o p q l n e a b d show ?thesis by simp
qed

subsection \<open>Identifier generation\<close>

lemma length_alphaNum: "length alphaNum = 62"
  by (simp add: alphaNum_def)

lemma distinct_alphaNum: "distinct alphaNum"
  by (simp add: alphaNum_def)

lemma fill_key_length:
  "fill_key env d idxs k = Inr k' \<Longrightarrow> length k' = length k"
  by (induction idxs arbitrary: d k) (auto split: sum.splits if_splits)

lemma fill_key_failed:
  "fill_key env d idxs k = Inl out \<Longrightarrow> out \<noteq> Return None"
  by (induction idxs arbitrary: d k) (auto split: sum.splits if_splits)

lemma fill_key_untouched:
  "fill_key env d idxs k = Inr k' \<Longrightarrow> i \<notin> set idxs \<Longrightarrow> k' ! i = k ! i"
  by (induction idxs arbitrary: d k) (auto split: sum.splits if_splits)

lemma fill_key_drawn:
  "fill_key env d idxs k = Inr k' \<Longrightarrow> distinct idxs \<Longrightarrow> \<forall>i \<in> set idxs. i < length k \<Longrightarrow>
   j < length idxs \<Longrightarrow>
   \<exists>idx < length alphaNum. rand_Int env (d + j) (length alphaNum) = Inr idx \<and>
      k' ! (idxs ! j) = alphaNum ! idx"
proof (induction idxs arbitrary: d k j)
  case Nil
  then show ?case by simp
next
  case (Cons i rest)
  from Cons.prems(1) obtain idx where
    draw: "rand_Int env d (length alphaNum) = Inr idx" and lt: "idx < length alphaNum"
    and rec: "fill_key env (Suc d) rest (k[i := alphaNum ! idx]) = Inr k'"
    by (auto split: sum.splits if_splits)
  show ?case
  proof (cases j)
    case 0
    have "i \<notin> set rest" using Cons.prems(2) by simp
    then have "k' ! i = (k[i := alphaNum ! idx]) ! i"
      using fill_key_untouched [OF rec] by simp
    also have "\<dots> = alphaNum ! idx" using Cons.prems(3) by simp
    finally show ?thesis using 0 draw lt by simp
  next
    case (Suc j')
    have "\<exists>idx' < length alphaNum. rand_Int env (Suc d + j') (length alphaNum) = Inr idx' \<and>
      k' ! (rest ! j') = alphaNum ! idx'"
      using Cons.IH [OF rec, of j'] Cons.prems(2,3,4) Suc by simp
    then show ?thesis using Suc by simp
  qed
qed

lemma fill_key_range:
  assumes "fill_key env d [0..<length k] k = Inr k'"
  shows "length k' = length k \<and> set k' \<subseteq> set alphaNum \<and>
    (\<forall>j < length k. \<exists>idx < length alphaNum.
        rand_Int env (d + j) (length alphaNum) = Inr idx \<and> k' ! j = alphaNum ! idx)"
proof -
  have len: "length k' = length k" using assms by (rule fill_key_length)
  have drawn: "\<exists>idx < length alphaNum.
        rand_Int env (d + j) (length alphaNum) = Inr idx \<and> k' ! j = alphaNum ! idx"
    if "j < length k" for j
    using fill_key_drawn [OF assms, of j] that by simp
  have "set k' \<subseteq> set alphaNum"
  proof
    fix c assume "c \<in> set k'"
    then obtain j where "j < length k'" "k' ! j = c" by (auto simp: in_set_conv_nth)
    with drawn [of j] len show "c \<in> set alphaNum" by auto
  qed
  with len drawn show ?thesis by blast
qed

lemma GenerateId_loop_shape:
  "GenerateId_loop n env d k r = Some (Return None, r') \<Longrightarrow>
   r' = r\<lparr>RId := RId r'\<rparr> \<and> length (RId r') = length k \<and> set (RId r') \<subseteq> set alphaNum \<and>
   First_Error env (RId r') = Some ErrRecordNotFound \<and>
   (\<exists>d'. \<forall>j < length k. \<exists>idx < length alphaNum.
      rand_Int env (d' + j) (length alphaNum) = Inr idx \<and> RId r' ! j = alphaNum ! idx)"
proof (induction n arbitrary: d k r)
  case 0
  then show ?case by simp
next
  case (Suc n)
  show ?case
  proof (cases "fill_key env d [0..<length k] k")
    case (Inl out)
    with Suc.prems have "out = Return None" "r' = r" by simp_all
    moreover have "out \<noteq> Return None"
      using Inl by (rule fill_key_failed)
    ultimately show ?thesis by simp
  next
    case (Inr k')
    note fk = fill_key_range [OF Inr]
    show ?thesis
    proof (cases "First_Error env k' = Some ErrRecordNotFound")
      case True
      with Suc.prems Inr have "r' = r\<lparr>RId := k'\<rparr>" by (simp add: Let_def)
      with fk True show ?thesis by auto
    next
      case False
      with Suc.prems Inr have "GenerateId_loop n env (d + length k) k' (r\<lparr>RId := k'\<rparr>) = Some (Return None, r')"
        by (simp add: Let_def)
      from Suc.IH [OF this] fk show ?thesis by auto
    qed
  qed
qed


lemma fill_key_succeeds:
  "\<forall>j < length idxs. \<exists>idx < length alphaNum. rand_Int env (d + j) (length alphaNum) = Inr idx \<Longrightarrow>
   \<exists>k'. fill_key env d idxs k = Inr k'"
proof (induction idxs arbitrary: d k)
  case Nil
  then show ?case by simp
next
  case (Cons i rest)
  from Cons.prems [rule_format, of 0] obtain idx where
    idx: "idx < length alphaNum" "rand_Int env d (length alphaNum) = Inr idx"
    by auto
  have "\<forall>j < length rest. \<exists>idx < length alphaNum.
      rand_Int env (Suc d + j) (length alphaNum) = Inr idx"
    using Cons.prems by (metis Suc_less_eq add_Suc_shift length_Cons)
  from Cons.IH [OF this] idx show ?case by simp
qed

text \<open>
  The loop ends at the first candidate that the table does not hold: when the first seven
  draws succeed and no row has the candidate they spell, \<^verbatim>\<open>GenerateId\<close> returns nil after
  one attempt.
\<close>

lemma GenerateId_returns:
  assumes "\<forall>j < 7. \<exists>idx < 62. rand_Int env j 62 = Inr idx"
    and "\<And>k. First_Error env k = Some ErrRecordNotFound"
  shows "\<exists>r'. GenerateId (Suc n) env r = Some (Return None, r')"
proof -
  have "\<exists>k'. fill_key env 0 [0..<7] (replicate 7 (CHR 0x00)) = Inr k'"
    using assms(1) fill_key_succeeds [of "[0..<7]" env 0 "replicate 7 (CHR 0x00)"]
    by (simp add: length_alphaNum)
  then obtain k' where "fill_key env 0 [0..<7] (replicate 7 (CHR 0x00)) = Inr k'" by blast
  then show ?thesis
    using assms(2) by (simp add: GenerateId_def Let_def)
qed

text \<open>
  C10. An identifier that \<^verbatim>\<open>GenerateId\<close> returns with nil has exactly 7 characters, each
  from \<^verbatim>\<open>alphaNum\<close>, which holds 62 different symbols: the letters a to z, A to Z and the
  digits 0 to 9. Each character is \<^verbatim>\<open>alphaNum[idx]\<close> for the number \<open>idx\<close> that one call of
  \<^verbatim>\<open>rand.Int(rand.Reader, 62)\<close> returned, seven calls in a row, with no arithmetic in
  between; no row of the table had that identifier, and no other field of the record has
  changed.
\<close>

theorem GenerateId_shape:
  "GenerateId n env r = Some (Return None, r') \<Longrightarrow>
   length (RId r') = 7 \<and> set (RId r') \<subseteq> set alphaNum \<and>
   alphaNum = ''abcdefghijklmnopqrstuvwxyz'' @ ''ABCDEFGHIJKLMNOPQRSTUVWXYZ'' @ ''0123456789'' \<and>
   length alphaNum = 62 \<and> distinct alphaNum \<and>
   (\<exists>d. \<forall>j < 7. \<exists>idx < 62. rand_Int env (d + j) 62 = Inr idx \<and> RId r' ! j = alphaNum ! idx) \<and>
   First_Error env (RId r') = Some ErrRecordNotFound \<and>
   r' = r\<lparr>RId := RId r'\<rparr>"
proof -
  assume "GenerateId n env r = Some (Return None, r')"
  then have "GenerateId_loop n env 0 (replicate 7 (CHR 0x00)) r = Some (Return None, r')"
    by (simp add: GenerateId_def)
  from GenerateId_loop_shape [OF this]
  have "r' = r\<lparr>RId := RId r'\<rparr>" "length (RId r') = 7" "set (RId r') \<subseteq> set alphaNum"
    "First_Error env (RId r') = Some ErrRecordNotFound"
    "\<exists>d. \<forall>j < 7. \<exists>idx < 62. rand_Int env (d + j) 62 = Inr idx \<and> RId r' ! j = alphaNum ! idx"
    by (simp_all add: length_alphaNum)
  moreover have "alphaNum = ''abcdefghijklmnopqrstuvwxyz'' @ ''ABCDEFGHIJKLMNOPQRSTUVWXYZ'' @ ''0123456789''"
    by (simp add: alphaNum_def)
  ultimately show ?thesis
    using length_alphaNum distinct_alphaNum by blast
qed

theorem GenerateId_shape_witness:
  "GenerateId 2 fixture_env fixture_result = Some (Return None, fixture_result\<lparr>RId := ''hijklmn''\<rparr>) \<and>
   length (RId (fixture_result\<lparr>RId := ''hijklmn''\<rparr>)) = 7 \<and>
   set (RId (fixture_result\<lparr>RId := ''hijklmn''\<rparr>)) \<subseteq> set alphaNum"
proof -
  have run: "GenerateId 2 fixture_env fixture_result =
      Some (Return None, fixture_result\<lparr>RId := ''hijklmn''\<rparr>)"
    by code_simp
  from GenerateId_shape [OF run] run show ?thesis by simp
qed

end
